theory Spec2Isabelle
  imports Main "HOL-Library.Word"
begin

section \<open>Data model of SceneManager.cpp\<close>

text \<open>
  The scene manager keeps a fixed array of texture entries with a count of the entries in
  use, a vector of materials, and a pointer to the shader manager. Floating-point values
  are only stored and passed on by the functions modelled here, so the type of floats is a
  parameter \<open>'f\<close>; the type of 4x4 matrices is a parameter \<open>'m\<close>.
\<close>

type_synonym GLuint = "32 word"

type_synonym 'f vec2 = "'f \<times> 'f"
type_synonym 'f vec3 = "'f \<times> 'f \<times> 'f"
type_synonym 'f vec4 = "'f \<times> 'f \<times> 'f \<times> 'f"

text \<open>\<open>TEXTURE_INFO\<close>: the members \<open>ID\<close> and \<open>tag\<close> written at lines 113-114.\<close>

record TEXTURE_INFO =
  ID :: GLuint
  texture_tag :: string

text \<open>\<open>OBJECT_MATERIAL\<close>: the members read at lines 225-232 (\<open>tag\<close> is \<open>material_tag\<close>).\<close>

record 'f OBJECT_MATERIAL =
  ambientColor :: "'f vec3"
  ambientStrength :: 'f
  diffuseColor :: "'f vec3"
  specularColor :: "'f vec3"
  shininess :: 'f
  material_tag :: string

text \<open>
  Undefined behaviour of the C++ code is a value of the model: calling a member function
  through a NULL pointer, and indexing the texture array outside its bounds.
\<close>

datatype fault = NullPointerDereference | ArrayIndexOutOfBounds

text \<open>
  The calls into OpenGL and into the image decoder are recorded, in order, in a trace.
  \<open>glDeleteTextures\<close> is the OpenGL call that releases a texture object; it is part of
  the API and therefore of the trace alphabet.
\<close>

datatype gl_param = GL_TEXTURE_WRAP_S | GL_TEXTURE_WRAP_T
  | GL_TEXTURE_MIN_FILTER | GL_TEXTURE_MAG_FILTER

datatype gl_value = GL_REPEAT | GL_LINEAR

datatype gl_format = GL_RGB8 | GL_RGBA8 | GL_RGB | GL_RGBA

datatype event =
    stbi_set_flip_vertically_on_load bool
  | stbi_load string
  | stbi_image_free
  | glGenTextures GLuint
  | glBindTexture GLuint
  | glTexParameteri gl_param gl_value
  | glTexImage2D gl_format int int gl_format
  | glGenerateMipmap
  | glActiveTexture int
  | glDeleteTextures GLuint

text \<open>What \<open>stbi_load\<close> hands back when it does not return NULL.\<close>

record stb_image =
  width :: int
  height :: int
  colorChannels :: int

text \<open>The values a shader uniform can hold, one constructor per setter.\<close>

datatype ('f, 'm) uniform =
    IntValue int
  | FloatValue 'f
  | Vec2Value "'f vec2"
  | Vec3Value "'f vec3"
  | Vec4Value "'f vec4"
  | Mat4Value 'm
  | Sampler2DValue int

type_synonym ('f, 'm) ShaderManager = "string \<rightharpoonup> ('f, 'm) uniform"

record ('f, 'm) SceneManager =
  m_pShaderManager :: "('f, 'm) ShaderManager option"
  m_textureIDs :: "TEXTURE_INFO list"
  m_loadedTextures :: int
  m_objectMaterials :: "'f OBJECT_MATERIAL list"
  events :: "event list"

text \<open>The uniform names of lines 22-26.\<close>

definition g_ModelName :: string where
  "g_ModelName = ''model''"

definition g_ColorValueName :: string where
  "g_ColorValueName = ''objectColor''"

definition g_TextureValueName :: string where
  "g_TextureValueName = ''objectTexture''"

definition g_UseTextureName :: string where
  "g_UseTextureName = ''bUseTexture''"

definition g_UseLightingName :: string where
  "g_UseLightingName = ''bUseLighting''"

subsection \<open>The shader uniform interface\<close>

text \<open>
  Modelled from the spec: the class \<open>ShaderManager\<close> is not part of the source file.
  The spec says it "accepts named scalar (bool/int/float), vector (2/3/4-component), and
  4x4 matrix values, plus a named integer sampler binding; no return value": each setter
  stores the value under the name.
\<close>

definition setIntValue :: "string \<Rightarrow> int \<Rightarrow> ('f, 'm) ShaderManager \<Rightarrow> ('f, 'm) ShaderManager" where
  "setIntValue name v sh = sh(name \<mapsto> IntValue v)"

definition setFloatValue :: "string \<Rightarrow> 'f \<Rightarrow> ('f, 'm) ShaderManager \<Rightarrow> ('f, 'm) ShaderManager" where
  "setFloatValue name v sh = sh(name \<mapsto> FloatValue v)"

definition setVec2Value :: "string \<Rightarrow> 'f vec2 \<Rightarrow> ('f, 'm) ShaderManager \<Rightarrow> ('f, 'm) ShaderManager" where
  "setVec2Value name v sh = sh(name \<mapsto> Vec2Value v)"

definition setVec3Value :: "string \<Rightarrow> 'f vec3 \<Rightarrow> ('f, 'm) ShaderManager \<Rightarrow> ('f, 'm) ShaderManager" where
  "setVec3Value name v sh = sh(name \<mapsto> Vec3Value v)"

definition setVec4Value :: "string \<Rightarrow> 'f vec4 \<Rightarrow> ('f, 'm) ShaderManager \<Rightarrow> ('f, 'm) ShaderManager" where
  "setVec4Value name v sh = sh(name \<mapsto> Vec4Value v)"

definition setMat4Value :: "string \<Rightarrow> 'm \<Rightarrow> ('f, 'm) ShaderManager \<Rightarrow> ('f, 'm) ShaderManager" where
  "setMat4Value name v sh = sh(name \<mapsto> Mat4Value v)"

definition setSampler2DValue :: "string \<Rightarrow> int \<Rightarrow> ('f, 'm) ShaderManager \<Rightarrow> ('f, 'm) ShaderManager" where
  "setSampler2DValue name v sh = sh(name \<mapsto> Sampler2DValue v)"

section \<open>Material registry\<close>

text \<open>
  The loop of \<open>FindMaterial\<close> (lines 221-238). The comparison of the \<open>int\<close> index with
  the unsigned \<open>size()\<close> is false for a negative index only after conversion, so the
  model asks for \<open>0 \<le> index\<close> as well; the loop starts at 0 and never sees one. The
  result is the output parameter \<open>material\<close> as the loop leaves it.
\<close>

function FindMaterial_loop ::
  "'f OBJECT_MATERIAL list \<Rightarrow> string \<Rightarrow> int \<Rightarrow> bool \<Rightarrow> 'f OBJECT_MATERIAL \<Rightarrow> 'f OBJECT_MATERIAL"
where
  "FindMaterial_loop mats tag index bFound material =
     (if (0 \<le> index \<and> index < int (length mats)) \<and> bFound = False then
        (if material_tag (mats ! nat index) = tag then
           FindMaterial_loop mats tag index True
             (material\<lparr>ambientColor := ambientColor (mats ! nat index),
                       ambientStrength := ambientStrength (mats ! nat index),
                       diffuseColor := diffuseColor (mats ! nat index),
                       specularColor := specularColor (mats ! nat index),
                       shininess := shininess (mats ! nat index)\<rparr>)
         else FindMaterial_loop mats tag (index + 1) bFound material)
      else material)"
  by pat_completeness auto
termination
  by (relation "measure (\<lambda>(mats, tag, index, bFound, material).
        2 * nat (int (length mats) - index) + (if bFound then 0 else 1))") auto

declare FindMaterial_loop.simps [simp del]

text \<open>
  \<open>FindMaterial\<close> (lines 214-241) returns its \<open>bool\<close> together with the output
  parameter. After the loop the source returns the constant \<open>true\<close>.
\<close>

definition FindMaterial ::
  "('f, 'm) SceneManager \<Rightarrow> string \<Rightarrow> 'f OBJECT_MATERIAL \<Rightarrow> bool \<times> 'f OBJECT_MATERIAL"
where
  "FindMaterial st tag material =
     (if length (m_objectMaterials st) = 0 then (False, material)
      else (True, FindMaterial_loop (m_objectMaterials st) tag 0 False material))"

section \<open>Texture registry\<close>

text \<open>
  The array \<open>m_textureIDs\<close> is declared in the header, which is not part of the source
  file, so its bound is a parameter of the model: the array is a list whose length is the
  bound (16 by the source's comments, "There are up to 16 slots", line 130), and an access
  outside it is the fault \<open>ArrayIndexOutOfBounds\<close>. \<open>registry_ok\<close> says that the count
  of entries in use lies within the array; \<open>registered_tags\<close> lists the tags of the
  entries in use, in load order; \<open>first_match\<close> says that entry \<open>i\<close> is the first entry
  in use that carries the tag.
\<close>

definition registry_ok :: "('f, 'm) SceneManager \<Rightarrow> bool" where
  "registry_ok st \<longleftrightarrow>
     0 \<le> m_loadedTextures st \<and> m_loadedTextures st \<le> int (length (m_textureIDs st))"

definition registered_tags :: "('f, 'm) SceneManager \<Rightarrow> string list" where
  "registered_tags st = map texture_tag (take (nat (m_loadedTextures st)) (m_textureIDs st))"


text \<open>Appending to the trace of external calls.\<close>

definition log_events :: "event list \<Rightarrow> ('f, 'm) SceneManager \<Rightarrow> ('f, 'm) SceneManager" where
  "log_events es st = st\<lparr>events := events st @ es\<rparr>"

text \<open>
  \<open>CreateGLTexture\<close> (lines 60-124). The two answers of the outside world are
  arguments: \<open>loaded_image\<close> is what the pointer \<open>image\<close> holds after \<open>stbi_load\<close>
  (\<open>None\<close> for NULL) and \<open>newID\<close> is what \<open>textureID\<close> holds after
  \<open>glGenTextures\<close>: the name it wrote, or the initial 0 of line 65. Console output is not modelled. The result is the returned \<open>bool\<close>
  with the state after the call; \<open>register\<close> is the common tail of the two supported
  branches (lines 105-117).
\<close>

definition CreateGLTexture ::
  "('f, 'm) SceneManager \<Rightarrow> string \<Rightarrow> string \<Rightarrow> stb_image option \<Rightarrow> GLuint
     \<Rightarrow> fault + (bool \<times> ('f, 'm) SceneManager)"
where
  "CreateGLTexture st filename tag loaded_image newID =
     (let st1 = log_events [stbi_set_flip_vertically_on_load True, stbi_load filename] st in
      case loaded_image of
        None \<Rightarrow> Inr (False, st1)
      | Some img \<Rightarrow>
          (let st2 = log_events
                 [glGenTextures newID, glBindTexture newID,
                  glTexParameteri GL_TEXTURE_WRAP_S GL_REPEAT,
                  glTexParameteri GL_TEXTURE_WRAP_T GL_REPEAT,
                  glTexParameteri GL_TEXTURE_MIN_FILTER GL_LINEAR,
                  glTexParameteri GL_TEXTURE_MAG_FILTER GL_LINEAR] st1;
               register = (\<lambda>st3.
                 let st4 = log_events [glGenerateMipmap, stbi_image_free, glBindTexture 0] st3 in
                 if m_loadedTextures st4 < 0
                    \<or> int (length (m_textureIDs st4)) \<le> m_loadedTextures st4
                 then Inl ArrayIndexOutOfBounds
                 else Inr (True,
                   st4\<lparr>m_textureIDs := (m_textureIDs st4)
                          [nat (m_loadedTextures st4) := \<lparr>ID = newID, texture_tag = tag\<rparr>],
                        m_loadedTextures := m_loadedTextures st4 + 1\<rparr>))
           in
           if colorChannels img = 3 then
             register (log_events [glTexImage2D GL_RGB8 (width img) (height img) GL_RGB] st2)
           else if colorChannels img = 4 then
             register (log_events [glTexImage2D GL_RGBA8 (width img) (height img) GL_RGBA] st2)
           else Inr (False, st2)))"

text \<open>
  \<open>DestroyGLTextures\<close> (lines 148-154): one call of \<open>glGenTextures\<close> per entry, which
  writes a name into the entry's \<open>ID\<close>; \<open>newIDs i\<close> is the name the call for entry \<open>i\<close>
  writes.
\<close>

function DestroyGLTextures_loop ::
  "('f, 'm) SceneManager \<Rightarrow> (int \<Rightarrow> GLuint) \<Rightarrow> int \<Rightarrow> fault + ('f, 'm) SceneManager"
where
  "DestroyGLTextures_loop st newIDs i =
     (if i < m_loadedTextures st then
        (if i < 0 \<or> int (length (m_textureIDs st)) \<le> i then Inl ArrayIndexOutOfBounds
         else DestroyGLTextures_loop
                (st\<lparr>m_textureIDs := (m_textureIDs st)
                       [nat i := (m_textureIDs st ! nat i)\<lparr>ID := newIDs i\<rparr>],
                     events := events st @ [glGenTextures (newIDs i)]\<rparr>)
                newIDs (i + 1))
      else Inr st)"
  by pat_completeness auto
termination
  by (relation "measure (\<lambda>(st, newIDs, i). nat (m_loadedTextures st - i))") auto

declare DestroyGLTextures_loop.simps [simp del]

definition DestroyGLTextures ::
  "('f, 'm) SceneManager \<Rightarrow> (int \<Rightarrow> GLuint) \<Rightarrow> fault + ('f, 'm) SceneManager"
where
  "DestroyGLTextures st newIDs = DestroyGLTextures_loop st newIDs 0"

text \<open>
  The loop of \<open>FindTextureID\<close> (lines 168-177). The stored \<open>GLuint\<close> is assigned to an
  \<open>int\<close>: the same 32 bits read as two's complement.
\<close>

function FindTextureID_loop ::
  "TEXTURE_INFO list \<Rightarrow> int \<Rightarrow> string \<Rightarrow> int \<Rightarrow> bool \<Rightarrow> int \<Rightarrow> fault + int"
where
  "FindTextureID_loop ids loaded tag index bFound textureID =
     (if index < loaded \<and> bFound = False then
        (if index < 0 \<or> int (length ids) \<le> index then Inl ArrayIndexOutOfBounds
         else if texture_tag (ids ! nat index) = tag then
           FindTextureID_loop ids loaded tag index True (sint (ID (ids ! nat index)))
         else FindTextureID_loop ids loaded tag (index + 1) bFound textureID)
      else Inr textureID)"
  by pat_completeness auto
termination
  by (relation "measure (\<lambda>(ids, loaded, tag, index, bFound, textureID).
        2 * nat (loaded - index) + (if bFound then 0 else 1))") auto

declare FindTextureID_loop.simps [simp del]

definition FindTextureID :: "('f, 'm) SceneManager \<Rightarrow> string \<Rightarrow> fault + int" where
  "FindTextureID st tag =
     FindTextureID_loop (m_textureIDs st) (m_loadedTextures st) tag 0 False (- 1)"

text \<open>The loop of \<open>FindTextureSlot\<close> (lines 194-203).\<close>

function FindTextureSlot_loop ::
  "TEXTURE_INFO list \<Rightarrow> int \<Rightarrow> string \<Rightarrow> int \<Rightarrow> bool \<Rightarrow> int \<Rightarrow> fault + int"
where
  "FindTextureSlot_loop ids loaded tag index bFound textureSlot =
     (if index < loaded \<and> bFound = False then
        (if index < 0 \<or> int (length ids) \<le> index then Inl ArrayIndexOutOfBounds
         else if texture_tag (ids ! nat index) = tag then
           FindTextureSlot_loop ids loaded tag index True index
         else FindTextureSlot_loop ids loaded tag (index + 1) bFound textureSlot)
      else Inr textureSlot)"
  by pat_completeness auto
termination
  by (relation "measure (\<lambda>(ids, loaded, tag, index, bFound, textureSlot).
        2 * nat (loaded - index) + (if bFound then 0 else 1))") auto

declare FindTextureSlot_loop.simps [simp del]

definition FindTextureSlot :: "('f, 'm) SceneManager \<Rightarrow> string \<Rightarrow> fault + int" where
  "FindTextureSlot st tag =
     FindTextureSlot_loop (m_textureIDs st) (m_loadedTextures st) tag 0 False (- 1)"

section \<open>Transform composer and draw-state dispatcher\<close>

text \<open>
  The glm library is not part of the repository; the five operations that
  \<open>SetTransformations\<close> uses are taken as a parameter, so that what is proved holds for
  whatever glm computes on floats. \<open>glm_mul\<close> is \<open>operator*\<close> on \<open>glm::mat4\<close>.
\<close>

record ('f, 'm) glm =
  glm_scale :: "'f vec3 \<Rightarrow> 'm"
  glm_rotate :: "'f \<Rightarrow> 'f vec3 \<Rightarrow> 'm"
  glm_translate :: "'f vec3 \<Rightarrow> 'm"
  glm_radians :: "'f \<Rightarrow> 'f"
  glm_mul :: "'m \<Rightarrow> 'm \<Rightarrow> 'm"

text \<open>
  \<open>SetTransformations\<close> (lines 249-279). The float literals \<open>1.0f\<close> and \<open>0.0f\<close> are
  \<open>1\<close> and \<open>0\<close> of the float type. C++ evaluates \<open>a * b * c * d * e\<close> from the left.
\<close>

definition SetTransformations ::
  "('f::{zero,one}, 'm) glm \<Rightarrow> ('f, 'm) SceneManager \<Rightarrow> 'f vec3 \<Rightarrow> 'f \<Rightarrow> 'f \<Rightarrow> 'f \<Rightarrow> 'f vec3
     \<Rightarrow> ('f, 'm) SceneManager"
where
  "SetTransformations g st scaleXYZ XrotationDegrees YrotationDegrees ZrotationDegrees positionXYZ =
     (let scale = glm_scale g scaleXYZ;
          rotationX = glm_rotate g (glm_radians g XrotationDegrees) (1, 0, 0);
          rotationY = glm_rotate g (glm_radians g YrotationDegrees) (0, 1, 0);
          rotationZ = glm_rotate g (glm_radians g ZrotationDegrees) (0, 0, 1);
          translation = glm_translate g positionXYZ;
          modelView = glm_mul g (glm_mul g (glm_mul g (glm_mul g translation rotationX)
                        rotationY) rotationZ) scale
      in case m_pShaderManager st of
           None \<Rightarrow> st
         | Some sh \<Rightarrow> st\<lparr>m_pShaderManager := Some (setMat4Value g_ModelName modelView sh)\<rparr>)"

text \<open>\<open>SetShaderColor\<close> (lines 287-306); \<open>false\<close> is passed as the \<open>int\<close> 0.\<close>

definition SetShaderColor ::
  "('f, 'm) SceneManager \<Rightarrow> 'f \<Rightarrow> 'f \<Rightarrow> 'f \<Rightarrow> 'f \<Rightarrow> ('f, 'm) SceneManager"
where
  "SetShaderColor st redColorValue greenColorValue blueColorValue alphaValue =
     (let currentColor = (redColorValue, greenColorValue, blueColorValue, alphaValue)
      in case m_pShaderManager st of
           None \<Rightarrow> st
         | Some sh \<Rightarrow>
             st\<lparr>m_pShaderManager :=
                  Some (setVec4Value g_ColorValueName currentColor
                         (setIntValue g_UseTextureName 0 sh))\<rparr>)"

text \<open>\<open>SetShaderTexture\<close> (lines 314-325); \<open>true\<close> is passed as the \<open>int\<close> 1.\<close>

definition SetShaderTexture ::
  "('f, 'm) SceneManager \<Rightarrow> string \<Rightarrow> fault + ('f, 'm) SceneManager"
where
  "SetShaderTexture st textureTag =
     (case m_pShaderManager st of
        None \<Rightarrow> Inr st
      | Some sh \<Rightarrow>
          (let sh1 = setIntValue g_UseTextureName 1 sh in
           case FindTextureSlot st textureTag of
             Inl f \<Rightarrow> Inl f
           | Inr textureID \<Rightarrow>
               Inr (st\<lparr>m_pShaderManager :=
                         Some (setSampler2DValue g_TextureValueName textureID sh1)\<rparr>)))"

text \<open>\<open>SetTextureUVScale\<close> (lines 333-339).\<close>

definition SetTextureUVScale :: "('f, 'm) SceneManager \<Rightarrow> 'f \<Rightarrow> 'f \<Rightarrow> ('f, 'm) SceneManager" where
  "SetTextureUVScale st u v =
     (case m_pShaderManager st of
        None \<Rightarrow> st
      | Some sh \<Rightarrow> st\<lparr>m_pShaderManager := Some (setVec2Value ''UVscale'' (u, v) sh)\<rparr>)"

text \<open>
  \<open>SetShaderMaterial\<close> (lines 347-365). The local \<open>material\<close> is declared without an
  initialiser; \<open>uninit\<close> stands for whatever it holds before \<open>FindMaterial\<close> runs. The
  five setters are called through \<open>m_pShaderManager\<close> with no test of the pointer.
\<close>

definition SetShaderMaterial ::
  "('f, 'm) SceneManager \<Rightarrow> string \<Rightarrow> 'f OBJECT_MATERIAL \<Rightarrow> fault + ('f, 'm) SceneManager"
where
  "SetShaderMaterial st materialTag uninit =
     (if length (m_objectMaterials st) > 0 then
        (case FindMaterial st materialTag uninit of
           (bReturn, material) \<Rightarrow>
             if bReturn = True then
               (case m_pShaderManager st of
                  None \<Rightarrow> Inl NullPointerDereference
                | Some sh \<Rightarrow>
                    Inr (st\<lparr>m_pShaderManager := Some
                      (setFloatValue ''material.shininess'' (shininess material)
                        (setVec3Value ''material.specularColor'' (specularColor material)
                          (setVec3Value ''material.diffuseColor'' (diffuseColor material)
                            (setFloatValue ''material.ambientStrength'' (ambientStrength material)
                              (setVec3Value ''material.ambientColor'' (ambientColor material)
                                sh)))))\<rparr>))
             else Inr st)
      else Inr st)"

text \<open>
  The composition as the specification words it: Translation x RotationX x RotationY x
  RotationZ x Scale, each rotation about its own axis from the angle in radians.
\<close>

definition Translation :: "('f, 'm) glm \<Rightarrow> 'f vec3 \<Rightarrow> 'm" where
  "Translation g position = glm_translate g position"

definition RotationX :: "('f::{zero,one}, 'm) glm \<Rightarrow> 'f \<Rightarrow> 'm" where
  "RotationX g degrees = glm_rotate g (glm_radians g degrees) (1, 0, 0)"

definition RotationY :: "('f::{zero,one}, 'm) glm \<Rightarrow> 'f \<Rightarrow> 'm" where
  "RotationY g degrees = glm_rotate g (glm_radians g degrees) (0, 1, 0)"

definition RotationZ :: "('f::{zero,one}, 'm) glm \<Rightarrow> 'f \<Rightarrow> 'm" where
  "RotationZ g degrees = glm_rotate g (glm_radians g degrees) (0, 0, 1)"

definition Scale :: "('f, 'm) glm \<Rightarrow> 'f vec3 \<Rightarrow> 'm" where
  "Scale g scale = glm_scale g scale"

definition Compose ::
  "('f::{zero,one}, 'm) glm \<Rightarrow> 'f vec3 \<Rightarrow> 'f \<Rightarrow> 'f \<Rightarrow> 'f \<Rightarrow> 'f vec3 \<Rightarrow> 'm"
where
  "Compose g scale rotationXdeg rotationYdeg rotationZdeg position =
     glm_mul g (glm_mul g (glm_mul g (glm_mul g
       (Translation g position) (RotationX g rotationXdeg)) (RotationY g rotationYdeg))
       (RotationZ g rotationZdeg)) (Scale g scale)"

section \<open>Reading the trace\<close>

text \<open>
  \<open>released\<close> lists the texture names handed to \<open>glDeleteTextures\<close> in a trace;
  \<open>new_events\<close> is what a call appended to the trace.
\<close>

fun released :: "event list \<Rightarrow> GLuint list" where
  "released [] = []"
| "released (glDeleteTextures h # es) = h # released es"
| "released (e # es) = released es"

definition new_events :: "('f, 'm) SceneManager \<Rightarrow> ('f, 'm) SceneManager \<Rightarrow> event list" where
  "new_events st st' = drop (length (events st)) (events st')"

section \<open>A concrete scene\<close>

text \<open>
  A small scene on which the theorems below are evaluated: a four-slot texture array with
  two textures loaded, one material, an empty shader and an empty trace; and the same
  scene after the file \<open>door.jpg\<close>, decoded to a 2x2 image with three channels, has
  been loaded under the tag \<open>door\<close> with texture name 7. Floats are instantiated
  with integers, since the functions only pass them on.
\<close>

definition gold :: "int OBJECT_MATERIAL" where
  "gold = \<lparr>ambientColor = (2, 2, 1), ambientStrength = 4, diffuseColor = (3, 3, 2),
           specularColor = (6, 5, 4), shininess = 22, material_tag = ''gold''\<rparr>"

definition example_scene :: "(int, unit) SceneManager" where
  "example_scene =
     \<lparr>m_pShaderManager = Some Map.empty,
      m_textureIDs = [\<lparr>ID = 1, texture_tag = ''floor''\<rparr>, \<lparr>ID = 2, texture_tag = ''wall''\<rparr>,
                      \<lparr>ID = 0, texture_tag = ''''\<rparr>, \<lparr>ID = 0, texture_tag = ''''\<rparr>],
      m_loadedTextures = 2,
      m_objectMaterials = [gold],
      events = []\<rparr>"




section \<open>Lookup in the texture registry\<close>


lemma FindTextureSlot_loop_none:
  "0 \<le> index \<Longrightarrow> loaded \<le> int (length ids)
   \<Longrightarrow> (\<forall>j. index \<le> j \<and> j < loaded \<longrightarrow> texture_tag (ids ! nat j) \<noteq> tag)
   \<Longrightarrow> FindTextureSlot_loop ids loaded tag index False slot = Inr slot"
proof (induction ids loaded tag index "False" slot rule: FindTextureSlot_loop.induct)
  case (1 ids loaded tag index slot)
  then show ?case
    by (subst FindTextureSlot_loop.simps) simp
qed


lemma FindTextureID_loop_none:
  "0 \<le> index \<Longrightarrow> loaded \<le> int (length ids)
   \<Longrightarrow> (\<forall>j. index \<le> j \<and> j < loaded \<longrightarrow> texture_tag (ids ! nat j) \<noteq> tag)
   \<Longrightarrow> FindTextureID_loop ids loaded tag index False textureID = Inr textureID"
proof (induction ids loaded tag index "False" textureID rule: FindTextureID_loop.induct)
  case (1 ids loaded tag index textureID)
  then show ?case
    by (subst FindTextureID_loop.simps) simp
qed

lemma unregistered_no_entry:
  assumes "registry_ok st" and "tag \<notin> set (registered_tags st)"
  shows "\<forall>j. 0 \<le> j \<and> j < m_loadedTextures st \<longrightarrow> texture_tag (m_textureIDs st ! nat j) \<noteq> tag"
proof (intro allI impI)
  fix j assume j: "0 \<le> j \<and> j < m_loadedTextures st"
  with assms(1) have lt: "nat j < length (registered_tags st)"
    by (simp add: registry_ok_def registered_tags_def)
  then have "registered_tags st ! nat j \<in> set (registered_tags st)"
    by (rule nth_mem)
  moreover from lt have "registered_tags st ! nat j = texture_tag (m_textureIDs st ! nat j)"
    by (simp add: registered_tags_def)
  ultimately show "texture_tag (m_textureIDs st ! nat j) \<noteq> tag"
    using assms(2) by metis
qed



section \<open>Loading and destroying textures\<close>



lemma DestroyGLTextures_loop_trace:
  "0 \<le> i \<Longrightarrow> m_loadedTextures st \<le> int (length (m_textureIDs st))
   \<Longrightarrow> \<exists>st'. DestroyGLTextures_loop st newIDs i = Inr st'
         \<and> events st' = events st @ map (\<lambda>k. glGenTextures (newIDs k)) [i..m_loadedTextures st - 1]"
proof (induction st newIDs i rule: DestroyGLTextures_loop.induct)
  case (1 st newIDs i)
  show ?case
  proof (cases "i < m_loadedTextures st")
    case True
    let ?st1 = "st\<lparr>m_textureIDs := (m_textureIDs st)
                       [nat i := (m_textureIDs st ! nat i)\<lparr>ID := newIDs i\<rparr>],
                     events := events st @ [glGenTextures (newIDs i)]\<rparr>"
    from True 1(2,3) have inb: "\<not> (i < 0 \<or> int (length (m_textureIDs st)) \<le> i)" by simp
    from 1(1) [OF True inb] 1(2,3)
    obtain st' where st': "DestroyGLTextures_loop ?st1 newIDs (i + 1) = Inr st'"
      "events st' = events ?st1 @ map (\<lambda>k. glGenTextures (newIDs k)) [i + 1..m_loadedTextures ?st1 - 1]"
      by auto
    from True have "[i..m_loadedTextures st - 1] = i # [i + 1..m_loadedTextures st - 1]"
      by (simp add: upto_rec1)
    with st' True inb show ?thesis
      by (subst DestroyGLTextures_loop.simps) simp
  next
    case False
    then show ?thesis by (subst DestroyGLTextures_loop.simps) simp
  qed
qed

lemma released_glGenTextures: "released (map (\<lambda>k. glGenTextures (f k)) ks) = []"
  by (induction ks) simp_all

section \<open>Claims\<close>

text \<open>
  C1. With a shader manager present, \<open>SetTransformations\<close> writes to the uniform
  \<open>model\<close> the product Translation x RotationX x RotationY x RotationZ x Scale (the
  specification's \<open>Compose\<close>): each rotation is built about its own axis from the angle
  converted to radians, the translation is the outermost factor and the scale the
  innermost. Nothing else of the state changes. This holds for every scale vector, angles
  and position, and for whatever the glm operations compute.
\<close>

theorem SetTransformations_pushes_composition:
  "SetTransformations g (st\<lparr>m_pShaderManager := Some sh\<rparr>) scaleXYZ xd yd zd positionXYZ =
     st\<lparr>m_pShaderManager :=
          Some (sh(g_ModelName \<mapsto> Mat4Value (Compose g scaleXYZ xd yd zd positionXYZ)))\<rparr>"
  by (simp add: SetTransformations_def Compose_def Translation_def RotationX_def RotationY_def
      RotationZ_def Scale_def setMat4Value_def)

text \<open>
  C2. The claim asks for \<open>found = false\<close> on a registry that is not empty and has no
  entry with the tag. The code returns \<open>true\<close> there: with the one material \<open>gold\<close>
  registered, looking up \<open>silver\<close> returns \<open>true\<close> and leaves the output parameter as
  it was.
\<close>

theorem FindMaterial_unmatched_tag_returns_true:
  "FindMaterial (st\<lparr>m_objectMaterials := [m\<lparr>material_tag := ''gold''\<rparr>]\<rparr>) ''silver'' material
     = (True, material)"
  by (simp add: FindMaterial_def FindMaterial_loop.simps)

text \<open>
  C3. The claim asks that no uniform is written when no material matches. With the one
  material \<open>gold\<close> registered, \<open>SetShaderMaterial\<close> on \<open>silver\<close> writes all five
  material uniforms, with the contents of its uninitialised local \<open>material\<close>.
\<close>

theorem SetShaderMaterial_unmatched_tag_writes_uniforms:
  "SetShaderMaterial
     (st\<lparr>m_pShaderManager := Some sh, m_objectMaterials := [m\<lparr>material_tag := ''gold''\<rparr>]\<rparr>)
     ''silver'' uninit
   = Inr (st\<lparr>m_pShaderManager := Some
            (sh(''material.ambientColor'' \<mapsto> Vec3Value (ambientColor uninit),
                ''material.ambientStrength'' \<mapsto> FloatValue (ambientStrength uninit),
                ''material.diffuseColor'' \<mapsto> Vec3Value (diffuseColor uninit),
                ''material.specularColor'' \<mapsto> Vec3Value (specularColor uninit),
                ''material.shininess'' \<mapsto> FloatValue (shininess uninit))),
               m_objectMaterials := [m\<lparr>material_tag := ''gold''\<rparr>]\<rparr>)"
  by (simp add: SetShaderMaterial_def FindMaterial_def FindMaterial_loop.simps
      setVec3Value_def setFloatValue_def)

text \<open>
  C4. The claim asks that a load into a full registry fails and leaves the count alone.
  When the count equals the array bound (16 entries in use in the 16-entry array) and the
  file decodes to a three-channel image, \<open>CreateGLTexture\<close> makes no capacity test and
  writes the entry one past the end of the array.
\<close>

theorem CreateGLTexture_full_registry_overruns_array:
  "CreateGLTexture (st\<lparr>m_textureIDs := ids, m_loadedTextures := int (length ids)\<rparr>)
     filename tag (Some (img\<lparr>colorChannels := 3\<rparr>)) newID = Inl ArrayIndexOutOfBounds"
  by (simp add: CreateGLTexture_def log_events_def Let_def)

text \<open>
  C5. The claim asks that teardown releases every texture of the registry.
  \<open>DestroyGLTextures\<close> calls \<open>glGenTextures\<close> once per entry in use and never
  \<open>glDeleteTextures\<close>: no texture name is released.
\<close>

theorem DestroyGLTextures_releases_nothing:
  assumes "registry_ok st"
  shows "\<exists>st'. DestroyGLTextures st newIDs = Inr st'
          \<and> new_events st st' = map (\<lambda>k. glGenTextures (newIDs k)) [0..m_loadedTextures st - 1]
          \<and> released (new_events st st') = []"
proof -
  from assms have "m_loadedTextures st \<le> int (length (m_textureIDs st))"
    by (simp add: registry_ok_def)
  from DestroyGLTextures_loop_trace [OF order_refl this, of newIDs]
  obtain st' where "DestroyGLTextures_loop st newIDs 0 = Inr st'"
    "events st' = events st @ map (\<lambda>k. glGenTextures (newIDs k)) [0..m_loadedTextures st - 1]"
    by auto
  then show ?thesis
    by (simp add: DestroyGLTextures_def new_events_def released_glGenTextures)
qed

text \<open>
  The theorem at the concrete scene.
\<close>

theorem DestroyGLTextures_releases_nothing_witness:
  "registry_ok example_scene
   \<and> (\<exists>st'. DestroyGLTextures example_scene (\<lambda>k. 10 + word_of_int k) = Inr st'
          \<and> new_events example_scene st' = [glGenTextures 10, glGenTextures 11]
          \<and> released (new_events example_scene st') = [])"
proof -
  have ok: "registry_ok example_scene"
    by (simp add: registry_ok_def example_scene_def)
  have two: "m_loadedTextures example_scene = 2"
    by (simp add: example_scene_def)
  have "[0..(1::int)] = [0, 1]" by (simp add: upto_rec1)
  with ok two DestroyGLTextures_releases_nothing [OF ok, of "\<lambda>k. 10 + word_of_int k"]
  show ?thesis by simp
qed

text \<open>
  C6. The claim asks that the decoded image is freed on every path. For an image with one
  channel \<open>CreateGLTexture\<close> returns \<open>false\<close> and the calls it has made end with the
  four \<open>glTexParameteri\<close>: \<open>stbi_image_free\<close> is not among them.
\<close>

theorem CreateGLTexture_unsupported_channels_keeps_image:
  "CreateGLTexture st filename tag (Some (img\<lparr>colorChannels := 1\<rparr>)) newID =
     Inr (False, st\<lparr>events := events st @
       [stbi_set_flip_vertically_on_load True, stbi_load filename,
        glGenTextures newID, glBindTexture newID,
        glTexParameteri GL_TEXTURE_WRAP_S GL_REPEAT,
        glTexParameteri GL_TEXTURE_WRAP_T GL_REPEAT,
        glTexParameteri GL_TEXTURE_MIN_FILTER GL_LINEAR,
        glTexParameteri GL_TEXTURE_MAG_FILTER GL_LINEAR]\<rparr>)"
  by (simp add: CreateGLTexture_def log_events_def Let_def)

text \<open>
  C7. For every decoded image whose channel count is neither 3 nor 4, \<open>CreateGLTexture\<close>
  returns \<open>false\<close> and the registry is unchanged: the array, the count and the tags in
  use are those of before the call.
\<close>

theorem unsupported_channels_leave_registry:
  assumes "colorChannels img \<noteq> 3" and "colorChannels img \<noteq> 4"
  shows "\<exists>st'. CreateGLTexture st filename tag (Some img) newID = Inr (False, st')
           \<and> m_textureIDs st' = m_textureIDs st
           \<and> m_loadedTextures st' = m_loadedTextures st
           \<and> registered_tags st' = registered_tags st"
  using assms by (simp add: CreateGLTexture_def log_events_def Let_def registered_tags_def)

text \<open>
  The theorem at the concrete scene.
\<close>

theorem unsupported_channels_leave_registry_witness:
  "colorChannels \<lparr>width = 2, height = 2, colorChannels = 1\<rparr> \<noteq> 3
   \<and> colorChannels \<lparr>width = 2, height = 2, colorChannels = 1\<rparr> \<noteq> 4
   \<and> (\<exists>st'. CreateGLTexture example_scene ''door.jpg'' ''door''
               (Some \<lparr>width = 2, height = 2, colorChannels = 1\<rparr>) 3 = Inr (False, st')
           \<and> m_textureIDs st' = m_textureIDs example_scene
           \<and> m_loadedTextures st' = m_loadedTextures example_scene
           \<and> registered_tags st' = registered_tags example_scene)"
  using unsupported_channels_leave_registry
    [of "\<lparr>width = 2, height = 2, colorChannels = 1\<rparr>" example_scene "''door.jpg''" "''door''" 3]
  by simp

text \<open>
  C8. For a tag that no entry in use carries, \<open>FindTextureSlot\<close> and \<open>FindTextureID\<close>
  both return \<open>-1\<close> and do not fault, and \<open>SetShaderTexture\<close> (with a shader manager
  present) sets the use-texture flag to 1, writes \<open>-1\<close> to the sampler uniform and
  returns normally.
\<close>

theorem unregistered_tag_resolves_to_sentinel:
  assumes "registry_ok st" and "tag \<notin> set (registered_tags st)"
  shows "FindTextureSlot st tag = Inr (- 1)
       \<and> FindTextureID st tag = Inr (- 1)
       \<and> SetShaderTexture (st\<lparr>m_pShaderManager := Some sh\<rparr>) tag =
           Inr (st\<lparr>m_pShaderManager :=
                  Some (sh(g_UseTextureName \<mapsto> IntValue 1,
                           g_TextureValueName \<mapsto> Sampler2DValue (- 1)))\<rparr>)"
proof -
  from assms have none: "\<forall>j. 0 \<le> j \<and> j < m_loadedTextures st \<longrightarrow> texture_tag (m_textureIDs st ! nat j) \<noteq> tag"
    by (rule unregistered_no_entry)
  from assms(1) have le: "m_loadedTextures st \<le> int (length (m_textureIDs st))"
    by (simp add: registry_ok_def)
  have slot: "FindTextureSlot st tag = Inr (- 1)"
    unfolding FindTextureSlot_def using le none by (intro FindTextureSlot_loop_none) auto
  have tid: "FindTextureID st tag = Inr (- 1)"
    unfolding FindTextureID_def using le none by (intro FindTextureID_loop_none) auto
  have "FindTextureSlot (st\<lparr>m_pShaderManager := Some sh\<rparr>) tag = FindTextureSlot st tag"
    by (simp add: FindTextureSlot_def)
  with slot have "SetShaderTexture (st\<lparr>m_pShaderManager := Some sh\<rparr>) tag =
           Inr (st\<lparr>m_pShaderManager :=
                  Some (sh(g_UseTextureName \<mapsto> IntValue 1,
                           g_TextureValueName \<mapsto> Sampler2DValue (- 1)))\<rparr>)"
    by (simp add: SetShaderTexture_def setIntValue_def setSampler2DValue_def)
  with slot tid show ?thesis by simp
qed

text \<open>
  The theorem at the concrete scene.
\<close>

theorem unregistered_tag_resolves_to_sentinel_witness:
  "registry_ok example_scene \<and> ''door'' \<notin> set (registered_tags example_scene)
   \<and> FindTextureSlot example_scene ''door'' = Inr (- 1)
   \<and> FindTextureID example_scene ''door'' = Inr (- 1)
   \<and> SetShaderTexture (example_scene\<lparr>m_pShaderManager := Some Map.empty\<rparr>) ''door'' =
           Inr (example_scene\<lparr>m_pShaderManager :=
                  Some (Map.empty(g_UseTextureName \<mapsto> IntValue 1,
                           g_TextureValueName \<mapsto> Sampler2DValue (- 1)))\<rparr>)"
proof -
  have ok: "registry_ok example_scene"
    by (simp add: registry_ok_def example_scene_def)
  have un: "''door'' \<notin> set (registered_tags example_scene)"
    by (simp add: registered_tags_def example_scene_def)
  show ?thesis
    using ok un unregistered_tag_resolves_to_sentinel [OF ok un, of Map.empty] by simp
qed




text \<open>
  C10. With a NULL shader manager, \<open>SetTransformations\<close>, \<open>SetShaderColor\<close>,
  \<open>SetShaderTexture\<close> and \<open>SetTextureUVScale\<close> return with the state unchanged and
  without a fault. \<open>SetShaderMaterial\<close> has no such test: with a material registered it
  calls a setter through the NULL pointer.
\<close>

theorem null_shader_manager:
  "SetTransformations g (st\<lparr>m_pShaderManager := None\<rparr>) scaleXYZ xd yd zd positionXYZ
     = st\<lparr>m_pShaderManager := None\<rparr>
   \<and> SetShaderColor (st\<lparr>m_pShaderManager := None\<rparr>) r gr b a = st\<lparr>m_pShaderManager := None\<rparr>
   \<and> SetShaderTexture (st\<lparr>m_pShaderManager := None\<rparr>) textureTag
       = Inr (st\<lparr>m_pShaderManager := None\<rparr>)
   \<and> SetTextureUVScale (st\<lparr>m_pShaderManager := None\<rparr>) u v = st\<lparr>m_pShaderManager := None\<rparr>
   \<and> SetShaderMaterial (st\<lparr>m_pShaderManager := None, m_objectMaterials := m # ms\<rparr>)
       materialTag uninit = Inl NullPointerDereference"
  by (simp add: SetTransformations_def SetShaderColor_def SetShaderTexture_def
      SetTextureUVScale_def SetShaderMaterial_def FindMaterial_def)

end
